theory Spec2Isabelle
  imports Complex_Main
begin

section \<open>Numbers and JSON values\<close>

text \<open>
  A TypeScript \<open>number\<close> that is stored or sent over the wire is modelled as a \<open>real\<close>:
  rounding of doubles is idealised. The one place where the source divides by a value that
  could be zero is \<open>calculateETA\<close>; there the quotient is a \<open>number\<close>, which keeps
  the non-finite results of a JavaScript division apart from the finite ones.
  Record ids are integers (\<open>int\<close>); the counters of \<open>MemStorage\<close> start at 1 and are only
  ever incremented, and an increment is exact below \<open>2 ^ 53\<close>, a count of records that the
  in-memory maps (which never delete) cannot hold.
\<close>

datatype number = Finite real | PosInfinity | NegInfinity | NaN

fun isFinite :: "number \<Rightarrow> bool" where
  "isFinite (Finite x) = True"
| "isFinite PosInfinity = False"
| "isFinite NegInfinity = False"
| "isFinite NaN = False"

text \<open>\<open>x / y\<close> on two finite numbers: a zero divisor gives an infinity or NaN.\<close>

definition js_divide :: "real \<Rightarrow> real \<Rightarrow> number" where
  "js_divide x y =
     (if y \<noteq> 0 then Finite (x / y)
      else if 0 < x then PosInfinity
      else if x < 0 then NegInfinity
      else NaN)"

text \<open>\<open>n / c\<close> for a positive finite constant \<open>c\<close>.\<close>

fun divide_by :: "number \<Rightarrow> real \<Rightarrow> number" where
  "divide_by (Finite x) c = js_divide x c"
| "divide_by PosInfinity c = PosInfinity"
| "divide_by NegInfinity c = NegInfinity"
| "divide_by NaN c = NaN"

text \<open>\<open>Math.round\<close>: the nearest integer, a tie going up.\<close>

fun Math_round :: "number \<Rightarrow> number" where
  "Math_round (Finite x) = Finite (of_int \<lfloor>x + 1 / 2\<rfloor>)"
| "Math_round PosInfinity = PosInfinity"
| "Math_round NegInfinity = NegInfinity"
| "Math_round NaN = NaN"

datatype Json =
    JNull
  | JBool bool
  | JNumber real
  | JString string
  | JArray "Json list"
  | JObject "(string \<times> Json) list"

text \<open>Property access on a parsed JSON object; of two bindings of a key the later one wins.\<close>

definition getProp :: "(string \<times> Json) list \<Rightarrow> string \<Rightarrow> Json option" where
  "getProp kvs k = map_of (rev kvs) k"

type_synonym Date = int

section \<open>shared/schema.ts: the entities\<close>

text \<open>
  Each table's select type is a record. Fields of different entities share names in the
  source (\<open>id\<close>, \<open>name\<close>, \<open>isActive\<close>, ...), so a field \<open>f\<close> of entity \<open>E\<close> is named
  \<open>E_f\<close> wherever the plain name is taken; the fields of \<open>Bus\<close> keep their names except
  \<open>id\<close> and \<open>driverId\<close>. A nullable column is an \<open>option\<close>. The insert types carry the
  fields that \<open>MemStorage\<close> copies into the stored record with a spread; a field that
  the insert schema lets a caller leave out is taken as supplied, as the type of the
  stored record requires it.
\<close>

datatype Role = Student | Parent | Admin

record InsertUser =
  ins_username :: string
  ins_email :: string
  ins_password :: string
  ins_fullName :: string
  ins_role :: Role
  ins_urn :: "string option"
  ins_department :: "string option"
  ins_classYear :: "string option"
  ins_user_contactNumber :: "string option"
  ins_address :: "string option"

record User =
  user_id :: int
  username :: string
  email :: string
  password :: string
  fullName :: string
  role :: Role
  urn :: "string option"
  department :: "string option"
  classYear :: "string option"
  user_contactNumber :: "string option"
  address :: "string option"
  isEmailVerified :: "bool option"
  verificationToken :: "string option"
  lastLogin :: "Date option"
  user_createdAt :: "Date option"

record LatLng =
  lat :: real
  lng :: real

datatype BusStatus = OnTime | Delayed | OutOfService

record InsertBus =
  ins_busNumber :: string
  ins_route :: string
  ins_status :: BusStatus
  ins_capacity :: int
  ins_currentCapacity :: int
  ins_location :: LatLng
  ins_speed :: "real option"
  ins_driverId :: "int option"
  ins_lastStop :: "string option"
  ins_isActive :: bool

record Bus =
  bus_id :: int
  busNumber :: string
  route :: string
  status :: BusStatus
  capacity :: int
  currentCapacity :: int
  location :: LatLng
  speed :: "real option"
  bus_driverId :: "int option"
  lastStop :: "string option"
  isActive :: bool

record InsertBusStop =
  ins_stop_name :: string
  ins_stop_location :: LatLng
  ins_stop_routeId :: int

record BusStop =
  stop_id :: int
  stop_name :: string
  stop_location :: LatLng
  stop_routeId :: int

record InsertRoute =
  ins_route_name :: string
  ins_route_description :: "string option"
  ins_stops :: "int list"
  ins_route_isActive :: bool

record Route =
  route_id :: int
  route_name :: string
  route_description :: "string option"
  stops :: "int list"
  route_isActive :: bool

record InsertDriver =
  ins_driver_name :: string
  ins_driver_contactNumber :: "string option"
  ins_driver_isActive :: bool

record Driver =
  driver_id :: int
  driver_name :: string
  driver_contactNumber :: "string option"
  driver_isActive :: bool

datatype Category = BusFee | RegistrationFee | Other

record InsertPayment =
  ins_payment_userId :: int
  ins_amount :: int
  ins_dueDate :: string
  ins_payment_description :: string
  ins_category :: Category
  ins_semester :: "string option"
  ins_academicYear :: "string option"

record Payment =
  payment_id :: int
  payment_userId :: int
  amount :: int
  dueDate :: string
  isPaid :: bool
  paymentDate :: "Date option"
  paymentMethod :: "string option"
  payment_description :: string
  category :: Category
  semester :: "string option"
  academicYear :: "string option"
  payment_createdAt :: "Date option"


subsection \<open>\<open>Partial<T>\<close>: the update objects\<close>

text \<open>
  An update object may carry any subset of the fields of its entity, the id included.
  A field that is absent is \<open>None\<close>; \<open>{ ...x, ...update }\<close> keeps the field of \<open>x\<close> then.
\<close>

definition spread :: "'a \<Rightarrow> 'a option \<Rightarrow> 'a" where
  "spread old new = (case new of None \<Rightarrow> old | Some v \<Rightarrow> v)"

record PartialUser =
  upd_user_id :: "int option"
  upd_username :: "string option"
  upd_email :: "string option"
  upd_password :: "string option"
  upd_fullName :: "string option"
  upd_role :: "Role option"
  upd_urn :: "string option option"
  upd_department :: "string option option"
  upd_classYear :: "string option option"
  upd_user_contactNumber :: "string option option"
  upd_address :: "string option option"
  upd_isEmailVerified :: "bool option option"
  upd_verificationToken :: "string option option"
  upd_lastLogin :: "Date option option"
  upd_user_createdAt :: "Date option option"

record PartialBus =
  upd_bus_id :: "int option"
  upd_busNumber :: "string option"
  upd_route :: "string option"
  upd_status :: "BusStatus option"
  upd_capacity :: "int option"
  upd_currentCapacity :: "int option"
  upd_location :: "LatLng option"
  upd_speed :: "real option option"
  upd_bus_driverId :: "int option option"
  upd_lastStop :: "string option option"
  upd_isActive :: "bool option"

record PartialRoute =
  upd_route_id :: "int option"
  upd_route_name :: "string option"
  upd_route_description :: "string option option"
  upd_stops :: "int list option"
  upd_route_isActive :: "bool option"

record PartialDriver =
  upd_driver_id :: "int option"
  upd_driver_name :: "string option"
  upd_driver_contactNumber :: "string option option"
  upd_driver_isActive :: "bool option"

record PartialPayment =
  upd_payment_id :: "int option"
  upd_payment_userId :: "int option"
  upd_amount :: "int option"
  upd_dueDate :: "string option"
  upd_isPaid :: "bool option"
  upd_paymentDate :: "Date option option"
  upd_paymentMethod :: "string option option"
  upd_payment_description :: "string option"
  upd_category :: "Category option"
  upd_semester :: "string option option"
  upd_academicYear :: "string option option"
  upd_payment_createdAt :: "Date option option"

definition spreadUser :: "User \<Rightarrow> PartialUser \<Rightarrow> User" where
  "spreadUser u p =
     \<lparr> user_id = spread (user_id u) (upd_user_id p),
       username = spread (username u) (upd_username p),
       email = spread (email u) (upd_email p),
       password = spread (password u) (upd_password p),
       fullName = spread (fullName u) (upd_fullName p),
       role = spread (role u) (upd_role p),
       urn = spread (urn u) (upd_urn p),
       department = spread (department u) (upd_department p),
       classYear = spread (classYear u) (upd_classYear p),
       user_contactNumber = spread (user_contactNumber u) (upd_user_contactNumber p),
       address = spread (address u) (upd_address p),
       isEmailVerified = spread (isEmailVerified u) (upd_isEmailVerified p),
       verificationToken = spread (verificationToken u) (upd_verificationToken p),
       lastLogin = spread (lastLogin u) (upd_lastLogin p),
       user_createdAt = spread (user_createdAt u) (upd_user_createdAt p) \<rparr>"

definition spreadBus :: "Bus \<Rightarrow> PartialBus \<Rightarrow> Bus" where
  "spreadBus b p =
     \<lparr> bus_id = spread (bus_id b) (upd_bus_id p),
       busNumber = spread (busNumber b) (upd_busNumber p),
       route = spread (route b) (upd_route p),
       status = spread (status b) (upd_status p),
       capacity = spread (capacity b) (upd_capacity p),
       currentCapacity = spread (currentCapacity b) (upd_currentCapacity p),
       location = spread (location b) (upd_location p),
       speed = spread (speed b) (upd_speed p),
       bus_driverId = spread (bus_driverId b) (upd_bus_driverId p),
       lastStop = spread (lastStop b) (upd_lastStop p),
       isActive = spread (isActive b) (upd_isActive p) \<rparr>"

definition spreadRoute :: "Route \<Rightarrow> PartialRoute \<Rightarrow> Route" where
  "spreadRoute r p =
     \<lparr> route_id = spread (route_id r) (upd_route_id p),
       route_name = spread (route_name r) (upd_route_name p),
       route_description = spread (route_description r) (upd_route_description p),
       stops = spread (stops r) (upd_stops p),
       route_isActive = spread (route_isActive r) (upd_route_isActive p) \<rparr>"

definition spreadDriver :: "Driver \<Rightarrow> PartialDriver \<Rightarrow> Driver" where
  "spreadDriver d p =
     \<lparr> driver_id = spread (driver_id d) (upd_driver_id p),
       driver_name = spread (driver_name d) (upd_driver_name p),
       driver_contactNumber = spread (driver_contactNumber d) (upd_driver_contactNumber p),
       driver_isActive = spread (driver_isActive d) (upd_driver_isActive p) \<rparr>"

definition spreadPayment :: "Payment \<Rightarrow> PartialPayment \<Rightarrow> Payment" where
  "spreadPayment x p =
     \<lparr> payment_id = spread (payment_id x) (upd_payment_id p),
       payment_userId = spread (payment_userId x) (upd_payment_userId p),
       amount = spread (amount x) (upd_amount p),
       dueDate = spread (dueDate x) (upd_dueDate p),
       isPaid = spread (isPaid x) (upd_isPaid p),
       paymentDate = spread (paymentDate x) (upd_paymentDate p),
       paymentMethod = spread (paymentMethod x) (upd_paymentMethod p),
       payment_description = spread (payment_description x) (upd_payment_description p),
       category = spread (category x) (upd_category p),
       semester = spread (semester x) (upd_semester p),
       academicYear = spread (academicYear x) (upd_academicYear p),
       payment_createdAt = spread (payment_createdAt x) (upd_payment_createdAt p) \<rparr>"

section \<open>server/storage.ts: MemStorage\<close>

text \<open>
  The six maps and the six id counters of the class. Every method takes the store and
  returns the store it leaves behind together with its result; \<open>undefined\<close> is \<open>None\<close>.
  The session store is the \<open>memorystore\<close> package's and holds no entity.
  \<open>crypto.randomBytes\<close> and \<open>new Date()\<close> are arguments of the methods that call them.
\<close>

record MemStorage =
  users :: "int \<rightharpoonup> User"
  buses :: "int \<rightharpoonup> Bus"
  busStops :: "int \<rightharpoonup> BusStop"
  routes :: "int \<rightharpoonup> Route"
  drivers :: "int \<rightharpoonup> Driver"
  payments :: "int \<rightharpoonup> Payment"
  userId :: int
  busId :: int
  busStopId :: int
  routeId :: int
  driverId :: int
  paymentId :: int

subsection \<open>User operations\<close>

definition createUser :: "MemStorage \<Rightarrow> InsertUser \<Rightarrow> string \<Rightarrow> Date \<Rightarrow> MemStorage \<times> User" where
  "createUser s insertUser randomHex now =
     (let id = userId s;
          user = \<lparr> user_id = id,
                   username = ins_username insertUser,
                   email = ins_email insertUser,
                   password = ins_password insertUser,
                   fullName = ins_fullName insertUser,
                   role = ins_role insertUser,
                   urn = ins_urn insertUser,
                   department = ins_department insertUser,
                   classYear = ins_classYear insertUser,
                   user_contactNumber = ins_user_contactNumber insertUser,
                   address = ins_address insertUser,
                   isEmailVerified = Some False,
                   verificationToken = Some randomHex,
                   lastLogin = None,
                   user_createdAt = Some now \<rparr>
      in (s\<lparr>userId := userId s + 1, users := (users s)(id \<mapsto> user)\<rparr>, user))"

definition updateUser :: "MemStorage \<Rightarrow> int \<Rightarrow> PartialUser \<Rightarrow> MemStorage \<times> User option" where
  "updateUser s i userUpdate =
     (case users s i of
        None \<Rightarrow> (s, None)
      | Some user \<Rightarrow>
          (let updatedUser = spreadUser user userUpdate
           in (s\<lparr>users := (users s)(i \<mapsto> updatedUser)\<rparr>, Some updatedUser)))"

definition verifyEmail :: "MemStorage \<Rightarrow> int \<Rightarrow> MemStorage \<times> User option" where
  "verifyEmail s i =
     (case users s i of
        None \<Rightarrow> (s, None)
      | Some user \<Rightarrow>
          (let updatedUser = user\<lparr>isEmailVerified := Some True, verificationToken := None\<rparr>
           in (s\<lparr>users := (users s)(i \<mapsto> updatedUser)\<rparr>, Some updatedUser)))"

definition setVerificationToken :: "MemStorage \<Rightarrow> int \<Rightarrow> string \<Rightarrow> MemStorage \<times> User option" where
  "setVerificationToken s i token =
     (case users s i of
        None \<Rightarrow> (s, None)
      | Some user \<Rightarrow>
          (let updatedUser = user\<lparr>verificationToken := Some token\<rparr>
           in (s\<lparr>users := (users s)(i \<mapsto> updatedUser)\<rparr>, Some updatedUser)))"

subsection \<open>Bus operations\<close>

definition getBus :: "MemStorage \<Rightarrow> int \<Rightarrow> Bus option" where
  "getBus s i = buses s i"

definition createBus :: "MemStorage \<Rightarrow> InsertBus \<Rightarrow> MemStorage \<times> Bus" where
  "createBus s insertBus =
     (let id = busId s;
          bus = \<lparr> bus_id = id,
                  busNumber = ins_busNumber insertBus,
                  route = ins_route insertBus,
                  status = ins_status insertBus,
                  capacity = ins_capacity insertBus,
                  currentCapacity = ins_currentCapacity insertBus,
                  location = ins_location insertBus,
                  speed = ins_speed insertBus,
                  bus_driverId = ins_driverId insertBus,
                  lastStop = ins_lastStop insertBus,
                  isActive = ins_isActive insertBus \<rparr>
      in (s\<lparr>busId := busId s + 1, buses := (buses s)(id \<mapsto> bus)\<rparr>, bus))"

definition updateBus :: "MemStorage \<Rightarrow> int \<Rightarrow> PartialBus \<Rightarrow> MemStorage \<times> Bus option" where
  "updateBus s i busUpdate =
     (case buses s i of
        None \<Rightarrow> (s, None)
      | Some bus \<Rightarrow>
          (let updatedBus = spreadBus bus busUpdate
           in (s\<lparr>buses := (buses s)(i \<mapsto> updatedBus)\<rparr>, Some updatedBus)))"

text \<open>
  \<open>updateBusLocation(id, location, speed?)\<close>: the stored record with \<open>location\<close>
  replaced, and \<open>speed\<close> replaced when the argument is not \<open>undefined\<close>.
\<close>

definition updateBusLocation ::
  "MemStorage \<Rightarrow> int \<Rightarrow> LatLng \<Rightarrow> real option \<Rightarrow> MemStorage \<times> Bus option" where
  "updateBusLocation s i loc spd =
     (case buses s i of
        None \<Rightarrow> (s, None)
      | Some bus \<Rightarrow>
          (let updatedBus =
                 (case spd of
                    None \<Rightarrow> bus\<lparr>location := loc\<rparr>
                  | Some v \<Rightarrow> bus\<lparr>location := loc, speed := Some v\<rparr>)
           in (s\<lparr>buses := (buses s)(i \<mapsto> updatedBus)\<rparr>, Some updatedBus)))"

subsection \<open>Bus stop, route and driver operations\<close>

definition createBusStop :: "MemStorage \<Rightarrow> InsertBusStop \<Rightarrow> MemStorage \<times> BusStop" where
  "createBusStop s insertBusStop =
     (let id = busStopId s;
          busStop = \<lparr> stop_id = id,
                      stop_name = ins_stop_name insertBusStop,
                      stop_location = ins_stop_location insertBusStop,
                      stop_routeId = ins_stop_routeId insertBusStop \<rparr>
      in (s\<lparr>busStopId := busStopId s + 1, busStops := (busStops s)(id \<mapsto> busStop)\<rparr>, busStop))"

definition createRoute :: "MemStorage \<Rightarrow> InsertRoute \<Rightarrow> MemStorage \<times> Route" where
  "createRoute s insertRoute =
     (let id = routeId s;
          r = \<lparr> route_id = id,
                    route_name = ins_route_name insertRoute,
                    route_description = ins_route_description insertRoute,
                    stops = ins_stops insertRoute,
                    route_isActive = ins_route_isActive insertRoute \<rparr>
      in (s\<lparr>routeId := routeId s + 1, routes := (routes s)(id \<mapsto> r)\<rparr>, r))"

definition updateRoute :: "MemStorage \<Rightarrow> int \<Rightarrow> PartialRoute \<Rightarrow> MemStorage \<times> Route option" where
  "updateRoute s i routeUpdate =
     (case routes s i of
        None \<Rightarrow> (s, None)
      | Some r \<Rightarrow>
          (let updatedRoute = spreadRoute r routeUpdate
           in (s\<lparr>routes := (routes s)(i \<mapsto> updatedRoute)\<rparr>, Some updatedRoute)))"

definition createDriver :: "MemStorage \<Rightarrow> InsertDriver \<Rightarrow> MemStorage \<times> Driver" where
  "createDriver s insertDriver =
     (let id = driverId s;
          driver = \<lparr> driver_id = id,
                     driver_name = ins_driver_name insertDriver,
                     driver_contactNumber = ins_driver_contactNumber insertDriver,
                     driver_isActive = ins_driver_isActive insertDriver \<rparr>
      in (s\<lparr>driverId := driverId s + 1, drivers := (drivers s)(id \<mapsto> driver)\<rparr>, driver))"

definition updateDriver :: "MemStorage \<Rightarrow> int \<Rightarrow> PartialDriver \<Rightarrow> MemStorage \<times> Driver option" where
  "updateDriver s i driverUpdate =
     (case drivers s i of
        None \<Rightarrow> (s, None)
      | Some driver \<Rightarrow>
          (let updatedDriver = spreadDriver driver driverUpdate
           in (s\<lparr>drivers := (drivers s)(i \<mapsto> updatedDriver)\<rparr>, Some updatedDriver)))"

subsection \<open>Payment operations\<close>

definition createPayment :: "MemStorage \<Rightarrow> InsertPayment \<Rightarrow> Date \<Rightarrow> MemStorage \<times> Payment" where
  "createPayment s insertPayment now =
     (let id = paymentId s;
          payment = \<lparr> payment_id = id,
                      payment_userId = ins_payment_userId insertPayment,
                      amount = ins_amount insertPayment,
                      dueDate = ins_dueDate insertPayment,
                      isPaid = False,
                      paymentDate = None,
                      paymentMethod = None,
                      payment_description = ins_payment_description insertPayment,
                      category = ins_category insertPayment,
                      semester = ins_semester insertPayment,
                      academicYear = ins_academicYear insertPayment,
                      payment_createdAt = Some now \<rparr>
      in (s\<lparr>paymentId := paymentId s + 1, payments := (payments s)(id \<mapsto> payment)\<rparr>, payment))"

definition updatePayment :: "MemStorage \<Rightarrow> int \<Rightarrow> PartialPayment \<Rightarrow> MemStorage \<times> Payment option" where
  "updatePayment s i paymentUpdate =
     (case payments s i of
        None \<Rightarrow> (s, None)
      | Some payment \<Rightarrow>
          (let updatedPayment = spreadPayment payment paymentUpdate
           in (s\<lparr>payments := (payments s)(i \<mapsto> updatedPayment)\<rparr>, Some updatedPayment)))"

definition markPaymentAsPaid :: "MemStorage \<Rightarrow> int \<Rightarrow> string \<Rightarrow> Date \<Rightarrow> MemStorage \<times> Payment option" where
  "markPaymentAsPaid s i method now =
     (case payments s i of
        None \<Rightarrow> (s, None)
      | Some payment \<Rightarrow>
          (let updatedPayment =
                 payment\<lparr>isPaid := True, paymentDate := Some now, paymentMethod := Some method\<rparr>
           in (s\<lparr>payments := (payments s)(i \<mapsto> updatedPayment)\<rparr>, Some updatedPayment)))"


subsection \<open>The constructor and its seed data\<close>

definition emptyStorage :: MemStorage where
  "emptyStorage =
     \<lparr> users = Map.empty, buses = Map.empty, busStops = Map.empty,
       routes = Map.empty, drivers = Map.empty, payments = Map.empty,
       userId = 1, busId = 1, busStopId = 1, routeId = 1, driverId = 1, paymentId = 1 \<rparr>"

definition seedData :: "MemStorage \<Rightarrow> MemStorage" where
  "seedData s0 =
     (let campusLoopRouteId = routeId s0;
          s1 = fst (createRoute s0
                 \<lparr> ins_route_name = ''Campus Loop'',
                   ins_route_description = Some ''Main campus loop covering all major buildings'',
                   ins_stops = [1, 2, 3, 4], ins_route_isActive = True \<rparr>);
          dormRouteId = routeId s1;
          s2 = fst (createRoute s1
                 \<lparr> ins_route_name = ''Dormitory Route'',
                   ins_route_description = Some ''Route connecting all dormitories to central campus'',
                   ins_stops = [5, 6, 7], ins_route_isActive = True \<rparr>);
          s3 = fst (createBusStop s2
                 \<lparr> ins_stop_name = ''Science Building'',
                   ins_stop_location = \<lparr> lat = 34.0522, lng = - 118.2437 \<rparr>,
                   ins_stop_routeId = campusLoopRouteId \<rparr>);
          s4 = fst (createBusStop s3
                 \<lparr> ins_stop_name = ''Library'',
                   ins_stop_location = \<lparr> lat = 34.0548, lng = - 118.2450 \<rparr>,
                   ins_stop_routeId = campusLoopRouteId \<rparr>);
          s5 = fst (createBusStop s4
                 \<lparr> ins_stop_name = ''Student Center'',
                   ins_stop_location = \<lparr> lat = 34.0530, lng = - 118.2420 \<rparr>,
                   ins_stop_routeId = campusLoopRouteId \<rparr>);
          s6 = fst (createBusStop s5
                 \<lparr> ins_stop_name = ''Athletic Complex'',
                   ins_stop_location = \<lparr> lat = 34.0510, lng = - 118.2400 \<rparr>,
                   ins_stop_routeId = campusLoopRouteId \<rparr>);
          s7 = fst (createBusStop s6
                 \<lparr> ins_stop_name = ''North Dormitories'',
                   ins_stop_location = \<lparr> lat = 34.0560, lng = - 118.2440 \<rparr>,
                   ins_stop_routeId = dormRouteId \<rparr>);
          s8 = fst (createBusStop s7
                 \<lparr> ins_stop_name = ''South Dormitories'',
                   ins_stop_location = \<lparr> lat = 34.0500, lng = - 118.2460 \<rparr>,
                   ins_stop_routeId = dormRouteId \<rparr>);
          s9 = fst (createBusStop s8
                 \<lparr> ins_stop_name = ''West Dormitories'',
                   ins_stop_location = \<lparr> lat = 34.0525, lng = - 118.2480 \<rparr>,
                   ins_stop_routeId = dormRouteId \<rparr>);
          driverId1 = driverId s9;
          s10 = fst (createDriver s9
                 \<lparr> ins_driver_name = ''Michael Johnson'',
                   ins_driver_contactNumber = Some ''555-123-4567'',
                   ins_driver_isActive = True \<rparr>);
          driverId2 = driverId s10;
          s11 = fst (createDriver s10
                 \<lparr> ins_driver_name = ''Sarah Williams'',
                   ins_driver_contactNumber = Some ''555-987-6543'',
                   ins_driver_isActive = True \<rparr>);
          driverId3 = driverId s11;
          s12 = fst (createDriver s11
                 \<lparr> ins_driver_name = ''Robert Davis'',
                   ins_driver_contactNumber = Some ''555-555-5555'',
                   ins_driver_isActive = True \<rparr>);
          s13 = fst (createBus s12
                 \<lparr> ins_busNumber = ''101'', ins_route = ''Campus Loop'', ins_status = OnTime,
                   ins_capacity = 40, ins_currentCapacity = 26,
                   ins_location = \<lparr> lat = 34.0522, lng = - 118.2437 \<rparr>,
                   ins_speed = Some 18, ins_driverId = Some driverId1,
                   ins_lastStop = Some ''Student Center'', ins_isActive = True \<rparr>);
          s14 = fst (createBus s13
                 \<lparr> ins_busNumber = ''202'', ins_route = ''Dormitory Route'', ins_status = Delayed,
                   ins_capacity = 30, ins_currentCapacity = 15,
                   ins_location = \<lparr> lat = 34.0548, lng = - 118.2450 \<rparr>,
                   ins_speed = Some 12, ins_driverId = Some driverId2,
                   ins_lastStop = Some ''North Dormitories'', ins_isActive = True \<rparr>);
          s15 = fst (createBus s14
                 \<lparr> ins_busNumber = ''303'', ins_route = ''Campus Loop'', ins_status = OnTime,
                   ins_capacity = 40, ins_currentCapacity = 32,
                   ins_location = \<lparr> lat = 34.0510, lng = - 118.2400 \<rparr>,
                   ins_speed = Some 20, ins_driverId = Some driverId3,
                   ins_lastStop = Some ''Athletic Complex'', ins_isActive = True \<rparr>)
      in s15)"

text \<open>\<open>new MemStorage()\<close>: empty maps, counters at 1, then the seed data.\<close>

definition newMemStorage :: MemStorage where
  "newMemStorage = seedData emptyStorage"

subsection \<open>Runs of the mutating methods\<close>

text \<open>
  A state of the store is reached from \<open>new MemStorage()\<close> by calls of its methods; the
  getters leave it as it is. A call is an \<open>Op\<close> with its arguments, \<open>step\<close> is the store
  after the call, and \<open>assigned\<close> lists, in order, the ids that the create methods of a
  run gave to their new records, each tagged with its entity.
\<close>

datatype Op =
    CreateUser InsertUser string Date
  | UpdateUser int PartialUser
  | VerifyEmail int
  | SetVerificationToken int string
  | CreateBus InsertBus
  | UpdateBus int PartialBus
  | UpdateBusLocation int LatLng "real option"
  | CreateBusStop InsertBusStop
  | CreateRoute InsertRoute
  | UpdateRoute int PartialRoute
  | CreateDriver InsertDriver
  | UpdateDriver int PartialDriver
  | CreatePayment InsertPayment Date
  | UpdatePayment int PartialPayment
  | MarkPaymentAsPaid int string Date

datatype Entity = EUser | EBus | EBusStop | ERoute | EDriver | EPayment

fun step :: "Op \<Rightarrow> MemStorage \<Rightarrow> MemStorage" where
  "step (CreateUser u tok now) s = fst (createUser s u tok now)"
| "step (UpdateUser i p) s = fst (updateUser s i p)"
| "step (VerifyEmail i) s = fst (verifyEmail s i)"
| "step (SetVerificationToken i tok) s = fst (setVerificationToken s i tok)"
| "step (CreateBus b) s = fst (createBus s b)"
| "step (UpdateBus i p) s = fst (updateBus s i p)"
| "step (UpdateBusLocation i loc spd) s = fst (updateBusLocation s i loc spd)"
| "step (CreateBusStop x) s = fst (createBusStop s x)"
| "step (CreateRoute r) s = fst (createRoute s r)"
| "step (UpdateRoute i p) s = fst (updateRoute s i p)"
| "step (CreateDriver d) s = fst (createDriver s d)"
| "step (UpdateDriver i p) s = fst (updateDriver s i p)"
| "step (CreatePayment x now) s = fst (createPayment s x now)"
| "step (UpdatePayment i p) s = fst (updatePayment s i p)"
| "step (MarkPaymentAsPaid i m now) s = fst (markPaymentAsPaid s i m now)"

fun assignedBy :: "Op \<Rightarrow> MemStorage \<Rightarrow> (Entity \<times> int) list" where
  "assignedBy (CreateUser u tok now) s = [(EUser, user_id (snd (createUser s u tok now)))]"
| "assignedBy (CreateBus b) s = [(EBus, bus_id (snd (createBus s b)))]"
| "assignedBy (CreateBusStop x) s = [(EBusStop, stop_id (snd (createBusStop s x)))]"
| "assignedBy (CreateRoute r) s = [(ERoute, route_id (snd (createRoute s r)))]"
| "assignedBy (CreateDriver d) s = [(EDriver, driver_id (snd (createDriver s d)))]"
| "assignedBy (CreatePayment x now) s = [(EPayment, payment_id (snd (createPayment s x now)))]"
| "assignedBy _ s = []"

fun run :: "Op list \<Rightarrow> MemStorage \<Rightarrow> MemStorage" where
  "run [] s = s"
| "run (x # xs) s = run xs (step x s)"

fun assigned :: "Op list \<Rightarrow> MemStorage \<Rightarrow> (Entity \<times> int) list" where
  "assigned [] s = []"
| "assigned (x # xs) s = assignedBy x s @ assigned xs (step x s)"


text \<open>
  The calls that \<open>seedData\<close> makes, with the ids it reads from the counters written
  out; the constructor's store is the run of these calls from the empty store.
\<close>

definition seedOps :: "Op list" where
  "seedOps =
     [ CreateRoute
         \<lparr> ins_route_name = ''Campus Loop'',
           ins_route_description = Some ''Main campus loop covering all major buildings'',
           ins_stops = [1, 2, 3, 4], ins_route_isActive = True \<rparr>,
       CreateRoute
         \<lparr> ins_route_name = ''Dormitory Route'',
           ins_route_description = Some ''Route connecting all dormitories to central campus'',
           ins_stops = [5, 6, 7], ins_route_isActive = True \<rparr>,
       CreateBusStop
         \<lparr> ins_stop_name = ''Science Building'',
           ins_stop_location = \<lparr> lat = 34.0522, lng = - 118.2437 \<rparr>, ins_stop_routeId = 1 \<rparr>,
       CreateBusStop
         \<lparr> ins_stop_name = ''Library'',
           ins_stop_location = \<lparr> lat = 34.0548, lng = - 118.2450 \<rparr>, ins_stop_routeId = 1 \<rparr>,
       CreateBusStop
         \<lparr> ins_stop_name = ''Student Center'',
           ins_stop_location = \<lparr> lat = 34.0530, lng = - 118.2420 \<rparr>, ins_stop_routeId = 1 \<rparr>,
       CreateBusStop
         \<lparr> ins_stop_name = ''Athletic Complex'',
           ins_stop_location = \<lparr> lat = 34.0510, lng = - 118.2400 \<rparr>, ins_stop_routeId = 1 \<rparr>,
       CreateBusStop
         \<lparr> ins_stop_name = ''North Dormitories'',
           ins_stop_location = \<lparr> lat = 34.0560, lng = - 118.2440 \<rparr>, ins_stop_routeId = 2 \<rparr>,
       CreateBusStop
         \<lparr> ins_stop_name = ''South Dormitories'',
           ins_stop_location = \<lparr> lat = 34.0500, lng = - 118.2460 \<rparr>, ins_stop_routeId = 2 \<rparr>,
       CreateBusStop
         \<lparr> ins_stop_name = ''West Dormitories'',
           ins_stop_location = \<lparr> lat = 34.0525, lng = - 118.2480 \<rparr>, ins_stop_routeId = 2 \<rparr>,
       CreateDriver
         \<lparr> ins_driver_name = ''Michael Johnson'',
           ins_driver_contactNumber = Some ''555-123-4567'', ins_driver_isActive = True \<rparr>,
       CreateDriver
         \<lparr> ins_driver_name = ''Sarah Williams'',
           ins_driver_contactNumber = Some ''555-987-6543'', ins_driver_isActive = True \<rparr>,
       CreateDriver
         \<lparr> ins_driver_name = ''Robert Davis'',
           ins_driver_contactNumber = Some ''555-555-5555'', ins_driver_isActive = True \<rparr>,
       CreateBus
         \<lparr> ins_busNumber = ''101'', ins_route = ''Campus Loop'', ins_status = OnTime,
           ins_capacity = 40, ins_currentCapacity = 26,
           ins_location = \<lparr> lat = 34.0522, lng = - 118.2437 \<rparr>,
           ins_speed = Some 18, ins_driverId = Some 1,
           ins_lastStop = Some ''Student Center'', ins_isActive = True \<rparr>,
       CreateBus
         \<lparr> ins_busNumber = ''202'', ins_route = ''Dormitory Route'', ins_status = Delayed,
           ins_capacity = 30, ins_currentCapacity = 15,
           ins_location = \<lparr> lat = 34.0548, lng = - 118.2450 \<rparr>,
           ins_speed = Some 12, ins_driverId = Some 2,
           ins_lastStop = Some ''North Dormitories'', ins_isActive = True \<rparr>,
       CreateBus
         \<lparr> ins_busNumber = ''303'', ins_route = ''Campus Loop'', ins_status = OnTime,
           ins_capacity = 40, ins_currentCapacity = 32,
           ins_location = \<lparr> lat = 34.0510, lng = - 118.2400 \<rparr>,
           ins_speed = Some 20, ins_driverId = Some 3,
           ins_lastStop = Some ''Athletic Complex'', ins_isActive = True \<rparr> ]"

section \<open>server/routes.ts: PUT /api/buses/:id/location\<close>

text \<open>
  What the handler reads of a request: the session's user (\<open>req.isAuthenticated()\<close> holds
  when there is one), the result of \<open>parseInt(req.params.id)\<close> (\<open>None\<close> for NaN) and the
  parsed JSON body. It answers with a status and a message, or with status 200 and the
  updated bus.
\<close>

record Request =
  req_user :: "User option"
  params_id :: "int option"
  body :: Json

datatype Response = ErrorMessage nat string | BusJson Bus

text \<open>
  \<open>z.object({ lat: z.number(), lng: z.number(), speed: z.number().optional() })\<close>:
  the body must be an object whose \<open>lat\<close> and \<open>lng\<close> are numbers and whose \<open>speed\<close>
  is a number or missing. Nothing bounds the three numbers; other keys are dropped.
\<close>

definition locationSchema_safeParse :: "Json \<Rightarrow> (real \<times> real \<times> real option) option" where
  "locationSchema_safeParse j =
     (case j of
        JObject kvs \<Rightarrow>
          (case getProp kvs ''lat'' of
             Some (JNumber lat_v) \<Rightarrow>
               (case getProp kvs ''lng'' of
                  Some (JNumber lng_v) \<Rightarrow>
                    (case getProp kvs ''speed'' of
                       None \<Rightarrow> Some (lat_v, lng_v, None)
                     | Some (JNumber v) \<Rightarrow> Some (lat_v, lng_v, Some v)
                     | Some _ \<Rightarrow> None)
                | _ \<Rightarrow> None)
           | _ \<Rightarrow> None)
      | _ \<Rightarrow> None)"

definition isAdmin :: "Request \<Rightarrow> bool" where
  "isAdmin req = (case req_user req of None \<Rightarrow> False | Some u \<Rightarrow> role u = Admin)"

definition putBusLocation :: "MemStorage \<Rightarrow> Request \<Rightarrow> MemStorage \<times> Response" where
  "putBusLocation s req =
     (if \<not> isAdmin req then (s, ErrorMessage 403 ''Unauthorized'')
      else case locationSchema_safeParse (body req) of
        None \<Rightarrow> (s, ErrorMessage 400 ''Invalid location data'')
      | Some (lat_v, lng_v, spd) \<Rightarrow>
          (case params_id req of
             None \<Rightarrow> (s, ErrorMessage 400 ''Invalid bus ID'')
           | Some i \<Rightarrow>
               (case updateBusLocation s i \<lparr> lat = lat_v, lng = lng_v \<rparr> spd of
                  (s', None) \<Rightarrow> (s', ErrorMessage 404 ''Bus not found'')
                | (s', Some bus) \<Rightarrow> (s', BusJson bus))))"

subsection \<open>Position reports\<close>

text \<open>
  The feed interface of the specification is
  \<open>reportPosition(vehicleId, lat, lng, speed?, timestamp, sequenceNumber)\<close>. The source has
  no type for a report: of these six values the handler hands the vehicle id, \<open>lat\<close>,
  \<open>lng\<close> and \<open>speed\<close> to \<open>updateBusLocation\<close>, which has no parameter for the other two.
  \<open>PositionReport\<close> only names the six values, so that a property of reports and their
  ordering keys can be stated; \<open>upsert\<close> is the call the handler makes for a report and
  \<open>applyReports\<close> makes it for each report of a delivery, in order.
\<close>

record PositionReport =
  vehicleId :: int
  rep_lat :: real
  rep_lng :: real
  rep_speed :: "real option"
  timestamp :: int
  sequenceNumber :: int

definition upsert :: "MemStorage \<Rightarrow> PositionReport \<Rightarrow> MemStorage \<times> Bus option" where
  "upsert s r = updateBusLocation s (vehicleId r) \<lparr> lat = rep_lat r, lng = rep_lng r \<rparr> (rep_speed r)"

fun applyReports :: "MemStorage \<Rightarrow> PositionReport list \<Rightarrow> MemStorage" where
  "applyReports s [] = s"
| "applyReports s (r # rs) = applyReports (fst (upsert s r)) rs"

section \<open>client: bus-info-panel.tsx and home-page.tsx\<close>

text \<open>
  \<open>bus.speed || 20\<close>: the speed of the bus, or 20 when it is \<open>null\<close>, \<open>undefined\<close> or 0.
\<close>

definition speedKmh :: "Bus \<Rightarrow> real" where
  "speedKmh bus = (case speed bus of None \<Rightarrow> 20 | Some v \<Rightarrow> if v = 0 then 20 else v)"

definition calculateETA :: "Bus \<Rightarrow> real \<Rightarrow> number" where
  "calculateETA bus stopDistance =
     (let speedMps = speedKmh bus * 1000 / 3600;
          timeSeconds = js_divide stopDistance speedMps
      in Math_round (divide_by timeSeconds 60))"





section \<open>Concrete stores, requests and reports\<close>

text \<open>The three buses of the seed data, as \<open>new MemStorage()\<close> stores them.\<close>

definition bus101 :: Bus where
  "bus101 =
     \<lparr> bus_id = 1, busNumber = ''101'', route = ''Campus Loop'', status = OnTime,
       capacity = 40, currentCapacity = 26, location = \<lparr> lat = 34.0522, lng = - 118.2437 \<rparr>,
       speed = Some 18, bus_driverId = Some 1, lastStop = Some ''Student Center'',
       isActive = True \<rparr>"

definition bus202 :: Bus where
  "bus202 =
     \<lparr> bus_id = 2, busNumber = ''202'', route = ''Dormitory Route'', status = Delayed,
       capacity = 30, currentCapacity = 15, location = \<lparr> lat = 34.0548, lng = - 118.2450 \<rparr>,
       speed = Some 12, bus_driverId = Some 2, lastStop = Some ''North Dormitories'',
       isActive = True \<rparr>"

definition bus303 :: Bus where
  "bus303 =
     \<lparr> bus_id = 3, busNumber = ''303'', route = ''Campus Loop'', status = OnTime,
       capacity = 40, currentCapacity = 32, location = \<lparr> lat = 34.0510, lng = - 118.2400 \<rparr>,
       speed = Some 20, bus_driverId = Some 3, lastStop = Some ''Athletic Complex'',
       isActive = True \<rparr>"

text \<open>An administrator, as the session of a request holds one.\<close>

definition adminUser :: User where
  "adminUser =
     \<lparr> user_id = 1, username = ''admin'', email = ''admin@example.org'', password = ''x'',
       fullName = ''Fleet Admin'', role = Admin, urn = None, department = None,
       classYear = None, user_contactNumber = None, address = None,
       isEmailVerified = Some True, verificationToken = None, lastLogin = None,
       user_createdAt = Some 0 \<rparr>"

text \<open>
  Two reports of bus 1 at different places. \<open>reportNewer\<close> has sequence number 5 and
  timestamp 5000, \<open>reportOlder\<close> sequence number 3 and timestamp 3000.
\<close>

definition reportNewer :: PositionReport where
  "reportNewer =
     \<lparr> vehicleId = 1, rep_lat = 34.06, rep_lng = - 118.25, rep_speed = Some 25,
       timestamp = 5000, sequenceNumber = 5 \<rparr>"

definition reportOlder :: PositionReport where
  "reportOlder =
     \<lparr> vehicleId = 1, rep_lat = 34.05, rep_lng = - 118.24, rep_speed = Some 10,
       timestamp = 3000, sequenceNumber = 3 \<rparr>"



text \<open>
  Bus 3 put out of service with \<open>updateBus(3, { status: "out-of-service" })\<close>, and then an
  administrator's well-formed report for it.
\<close>

definition markOutOfService :: PartialBus where
  "markOutOfService =
     \<lparr> upd_bus_id = None, upd_busNumber = None, upd_route = None,
       upd_status = Some OutOfService, upd_capacity = None, upd_currentCapacity = None,
       upd_location = None, upd_speed = None, upd_bus_driverId = None, upd_lastStop = None,
       upd_isActive = None \<rparr>"

definition stalledStorage :: MemStorage where
  "stalledStorage = fst (updateBus newMemStorage 3 markOutOfService)"

definition reportFor3 :: Request where
  "reportFor3 =
     \<lparr> req_user = Some adminUser, params_id = Some 3,
       body = JObject [(''lat'', JNumber 34.052), (''lng'', JNumber (- 118.241)),
                       (''speed'', JNumber 22)] \<rparr>"



text \<open>
  Data for one more record of each entity, and a run of four calls on the constructor's
  store: a user, a fourth bus, that bus put out of service, a payment.
\<close>

definition sampleUser :: InsertUser where
  "sampleUser =
     \<lparr> ins_username = ''asha'', ins_email = ''asha@example.org'', ins_password = ''pw'',
       ins_fullName = ''Asha Rao'', ins_role = Student, ins_urn = Some ''URN-17'',
       ins_department = None, ins_classYear = None, ins_user_contactNumber = None,
       ins_address = None \<rparr>"

definition sampleBus :: InsertBus where
  "sampleBus =
     \<lparr> ins_busNumber = ''404'', ins_route = ''Campus Loop'', ins_status = OnTime,
       ins_capacity = 40, ins_currentCapacity = 0,
       ins_location = \<lparr> lat = 34.05, lng = - 118.24 \<rparr>, ins_speed = Some 0,
       ins_driverId = None, ins_lastStop = None, ins_isActive = True \<rparr>"

definition sampleStop :: InsertBusStop where
  "sampleStop =
     \<lparr> ins_stop_name = ''Main Gate'', ins_stop_location = \<lparr> lat = 34.05, lng = - 118.24 \<rparr>,
       ins_stop_routeId = 1 \<rparr>"

definition sampleRoute :: InsertRoute where
  "sampleRoute =
     \<lparr> ins_route_name = ''Express'', ins_route_description = None, ins_stops = [1, 4],
       ins_route_isActive = True \<rparr>"

definition sampleDriver :: InsertDriver where
  "sampleDriver =
     \<lparr> ins_driver_name = ''Priya Nair'', ins_driver_contactNumber = None,
       ins_driver_isActive = True \<rparr>"

definition samplePayment :: InsertPayment where
  "samplePayment =
     \<lparr> ins_payment_userId = 1, ins_amount = 5000, ins_dueDate = ''2025-01-31'',
       ins_payment_description = ''Bus fee'', ins_category = BusFee, ins_semester = None,
       ins_academicYear = None \<rparr>"

definition sampleOps :: "Op list" where
  "sampleOps =
     [ CreateUser sampleUser ''a1b2'' 1000, CreateBus sampleBus,
       UpdateBus 4 markOutOfService, CreatePayment samplePayment 2000 ]"

text \<open>The store after \<open>reportNewer\<close> has been applied to the seeded one.\<close>

definition afterNewer :: MemStorage where
  "afterNewer = fst (upsert newMemStorage reportNewer)"

section \<open>Notions used to state the properties\<close>

text \<open>The position a report carries, as the handler builds it: \<open>{ lat, lng }\<close>.\<close>

definition reportedPosition :: "PositionReport \<Rightarrow> LatLng" where
  "reportedPosition r = \<lparr> lat = rep_lat r, lng = rep_lng r \<rparr>"

text \<open>
  The speed a delivery leaves behind: that of the last report, in delivery order, that
  carries one, and the stored speed when none does.
\<close>

fun lastSpeed :: "real option \<Rightarrow> PositionReport list \<Rightarrow> real option" where
  "lastSpeed stored [] = stored"
| "lastSpeed stored (r # rs) =
     lastSpeed (case rep_speed r of None \<Rightarrow> stored | Some v \<Rightarrow> Some v) rs"

text \<open>The calls of the store that take a bus status from their caller.\<close>

fun carriesStatus :: "Op \<Rightarrow> bool" where
  "carriesStatus (CreateBus b) = True"
| "carriesStatus (UpdateBus i p) = True"
| "carriesStatus _ = False"

text \<open>
  The store that a run of calls reaches from \<open>new MemStorage()\<close>, and the ids that the
  create methods have assigned up to then: those of the seed data, then those of the run.
\<close>

definition reached :: "Op list \<Rightarrow> MemStorage" where
  "reached ops = run ops newMemStorage"

definition history :: "Op list \<Rightarrow> (Entity \<times> int) list" where
  "history ops = assigned (seedOps @ ops) emptyStorage"

text \<open>The ids, in order, that a history records for one entity.\<close>

definition idsOf :: "Entity \<Rightarrow> (Entity \<times> int) list \<Rightarrow> int list" where
  "idsOf e xs = map snd (filter (\<lambda>p. fst p = e) xs)"

text \<open>
  A create that stores record \<open>r\<close> under id \<open>i\<close>: the id is above every id assigned
  before, the map had no record under it, it has \<open>r\<close> there afterwards, and every other
  key is as before.
\<close>

definition freshCreate :: "int list \<Rightarrow> (int \<rightharpoonup> 'a) \<Rightarrow> (int \<rightharpoonup> 'a) \<Rightarrow> int \<Rightarrow> 'a \<Rightarrow> bool" where
  "freshCreate previous before after i r \<longleftrightarrow>
     (\<forall>j \<in> set previous. j < i) \<and> before i = None \<and> after i = Some r
     \<and> (\<forall>k. k \<noteq> i \<longrightarrow> after k = before k)"

text \<open>The maps of the entities other than \<open>e\<close> are the same in both stores.\<close>

definition othersKept :: "Entity \<Rightarrow> MemStorage \<Rightarrow> MemStorage \<Rightarrow> bool" where
  "othersKept e s s' \<longleftrightarrow>
     (e \<noteq> EUser \<longrightarrow> users s' = users s) \<and> (e \<noteq> EBus \<longrightarrow> buses s' = buses s)
     \<and> (e \<noteq> EBusStop \<longrightarrow> busStops s' = busStops s) \<and> (e \<noteq> ERoute \<longrightarrow> routes s' = routes s)
     \<and> (e \<noteq> EDriver \<longrightarrow> drivers s' = drivers s) \<and> (e \<noteq> EPayment \<longrightarrow> payments s' = payments s)"

text \<open>The id counter of an entity.\<close>

fun counter :: "Entity \<Rightarrow> MemStorage \<Rightarrow> int" where
  "counter EUser s = userId s"
| "counter EBus s = busId s"
| "counter EBusStop s = busStopId s"
| "counter ERoute s = routeId s"
| "counter EDriver s = driverId s"
| "counter EPayment s = paymentId s"

text \<open>No map has a record at or above its counter.\<close>

definition keysBelowCounters :: "MemStorage \<Rightarrow> bool" where
  "keysBelowCounters s \<longleftrightarrow>
     (\<forall>k. k \<ge> userId s \<longrightarrow> users s k = None) \<and> (\<forall>k. k \<ge> busId s \<longrightarrow> buses s k = None)
     \<and> (\<forall>k. k \<ge> busStopId s \<longrightarrow> busStops s k = None) \<and> (\<forall>k. k \<ge> routeId s \<longrightarrow> routes s k = None)
     \<and> (\<forall>k. k \<ge> driverId s \<longrightarrow> drivers s k = None) \<and> (\<forall>k. k \<ge> paymentId s \<longrightarrow> payments s k = None)"

section \<open>Properties of the position update\<close>

lemmas create_defs =
  createRoute_def createBus_def createBusStop_def createDriver_def createUser_def
  createPayment_def

lemma seeded_buses: "buses newMemStorage = [1 \<mapsto> bus101, 2 \<mapsto> bus202, 3 \<mapsto> bus303]"
  by (simp add: newMemStorage_def seedData_def emptyStorage_def create_defs
      bus101_def bus202_def bus303_def Let_def)

lemma updateBusLocation_Some:
  "buses s i = Some b \<Longrightarrow>
   updateBusLocation s i loc spd =
     (s\<lparr>buses := (buses s)(i \<mapsto>
          b\<lparr>location := loc, speed := (case spd of None \<Rightarrow> speed b | Some v \<Rightarrow> Some v)\<rparr>)\<rparr>,
      Some (b\<lparr>location := loc, speed := (case spd of None \<Rightarrow> speed b | Some v \<Rightarrow> Some v)\<rparr>))"
  by (simp add: updateBusLocation_def Let_def split: option.splits)

lemma updateBusLocation_None:
  "buses s i = None \<Longrightarrow> updateBusLocation s i loc spd = (s, None)"
  by (simp add: updateBusLocation_def)

text \<open>
  C9. For an existing bus id, \<open>updateBusLocation\<close> changes of that bus only the location,
  and the speed when a speed is supplied (the stored speed stays when it is omitted);
  \<open>id\<close>, \<open>busNumber\<close>, \<open>route\<close>, \<open>status\<close>, \<open>capacity\<close>, \<open>currentCapacity\<close>, \<open>driverId\<close>,
  \<open>lastStop\<close> and \<open>isActive\<close> are as before, every other bus is as before, and so is the
  rest of the store.
\<close>

theorem updateBusLocation_frame:
  assumes "buses s i = Some b"
  shows "\<exists>b'. snd (updateBusLocation s i loc spd) = Some b'
           \<and> buses (fst (updateBusLocation s i loc spd)) i = Some b'
           \<and> location b' = loc
           \<and> (spd = None \<longrightarrow> speed b' = speed b)
           \<and> (\<forall>v. spd = Some v \<longrightarrow> speed b' = Some v)
           \<and> bus_id b' = bus_id b \<and> busNumber b' = busNumber b \<and> route b' = route b
           \<and> status b' = status b \<and> capacity b' = capacity b
           \<and> currentCapacity b' = currentCapacity b \<and> bus_driverId b' = bus_driverId b
           \<and> lastStop b' = lastStop b \<and> isActive b' = isActive b
           \<and> (\<forall>j. j \<noteq> i \<longrightarrow> buses (fst (updateBusLocation s i loc spd)) j = buses s j)
           \<and> (fst (updateBusLocation s i loc spd))\<lparr>buses := buses s\<rparr> = s"
  using assms by (simp add: updateBusLocation_Some split: option.splits)

theorem updateBusLocation_frame_witness:
  "buses newMemStorage 1 = Some bus101
   \<and> snd (updateBusLocation newMemStorage 1 \<lparr> lat = 34.06, lng = - 118.25 \<rparr> None)
       = Some (bus101\<lparr>location := \<lparr> lat = 34.06, lng = - 118.25 \<rparr>\<rparr>)
   \<and> buses (fst (updateBusLocation newMemStorage 1 \<lparr> lat = 34.06, lng = - 118.25 \<rparr> None)) 2
       = Some bus202"
proof -
  let ?r = "updateBusLocation newMemStorage 1 \<lparr> lat = 34.06, lng = - 118.25 \<rparr> None"
  have h: "buses newMemStorage 1 = Some bus101"
    by (simp add: seeded_buses)
  from updateBusLocation_frame [OF h, of "\<lparr> lat = 34.06, lng = - 118.25 \<rparr>" None]
  obtain b' where b': "snd ?r = Some b'"
    and others: "\<forall>j. j \<noteq> 1 \<longrightarrow> buses (fst ?r) j = buses newMemStorage j"
    by blast
  have "b' = bus101\<lparr>location := \<lparr> lat = 34.06, lng = - 118.25 \<rparr>\<rparr>"
    using b' h by (simp add: updateBusLocation_Some)
  moreover have "buses (fst ?r) 2 = Some bus202"
    using others by (simp add: seeded_buses)
  ultimately show ?thesis
    using h b' by simp
qed

section \<open>Reports and their ordering keys\<close>

lemma upsert_Some:
  "buses s (vehicleId r) = Some b \<Longrightarrow>
   upsert s r =
     (s\<lparr>buses := (buses s)(vehicleId r \<mapsto>
          b\<lparr>location := reportedPosition r,
            speed := (case rep_speed r of None \<Rightarrow> speed b | Some v \<Rightarrow> Some v)\<rparr>)\<rparr>,
      Some (b\<lparr>location := reportedPosition r,
            speed := (case rep_speed r of None \<Rightarrow> speed b | Some v \<Rightarrow> Some v)\<rparr>))"
  by (simp add: upsert_def reportedPosition_def updateBusLocation_Some)

lemma afterNewer_eq:
  "afterNewer = newMemStorage\<lparr>buses := (buses newMemStorage)(1 \<mapsto>
      bus101\<lparr>location := \<lparr> lat = 34.06, lng = - 118.25 \<rparr>, speed := Some 25\<rparr>)\<rparr>"
  by (simp add: afterNewer_def upsert_def reportNewer_def seeded_buses updateBusLocation_Some)

text \<open>
  C1, as stated, fails. The store holds the state of bus 1 left by the report with
  sequence number 5 (timestamp 5000). The report with sequence number 3 (timestamp 3000)
  arrives next: it is not rejected, and the stored location and speed become the older
  report's.
\<close>

theorem upsert_counterexample:
  "sequenceNumber reportOlder \<le> sequenceNumber reportNewer
   \<and> timestamp reportOlder \<le> timestamp reportNewer
   \<and> buses afterNewer 1
       = Some (bus101\<lparr>location := \<lparr> lat = 34.06, lng = - 118.25 \<rparr>, speed := Some 25\<rparr>)
   \<and> snd (upsert afterNewer reportOlder)
       = Some (bus101\<lparr>location := \<lparr> lat = 34.05, lng = - 118.24 \<rparr>, speed := Some 10\<rparr>)
   \<and> buses (fst (upsert afterNewer reportOlder)) 1
       = Some (bus101\<lparr>location := \<lparr> lat = 34.05, lng = - 118.24 \<rparr>, speed := Some 10\<rparr>)
   \<and> fst (upsert afterNewer reportOlder) \<noteq> afterNewer"
proof -
  have keys: "sequenceNumber reportOlder \<le> sequenceNumber reportNewer
       \<and> timestamp reportOlder \<le> timestamp reportNewer"
    by (simp add: reportOlder_def reportNewer_def)
  have stored: "buses afterNewer 1
       = Some (bus101\<lparr>location := \<lparr> lat = 34.06, lng = - 118.25 \<rparr>, speed := Some 25\<rparr>)"
    by (simp add: afterNewer_eq)
  have u: "upsert afterNewer reportOlder =
      (afterNewer\<lparr>buses := (buses afterNewer)(1 \<mapsto>
          bus101\<lparr>location := \<lparr> lat = 34.05, lng = - 118.24 \<rparr>, speed := Some 10\<rparr>)\<rparr>,
       Some (bus101\<lparr>location := \<lparr> lat = 34.05, lng = - 118.24 \<rparr>, speed := Some 10\<rparr>))"
    using stored by (simp add: upsert_def reportOlder_def updateBusLocation_Some)
  have changed: "buses (fst (upsert afterNewer reportOlder)) 1 \<noteq> buses afterNewer 1"
    by (simp add: u stored bus101_def)
  then have "fst (upsert afterNewer reportOlder) \<noteq> afterNewer"
    by metis
  then show ?thesis
    using keys stored by (simp add: u)
qed

text \<open>
  C1, amended. For a vehicle that has a stored record, the position update accepts every
  report, whatever its sequence number and timestamp: it returns the stored record with
  the report's position, and with the report's speed when it carries one, and stores
  that record. The store is left as it was exactly when the report's position is the
  stored one and its speed is missing or the stored one.
\<close>

theorem upsert_accepts:
  assumes "buses s (vehicleId r) = Some b"
  shows "snd (upsert s r) =
           Some (b\<lparr>location := reportedPosition r,
                   speed := (case rep_speed r of None \<Rightarrow> speed b | Some v \<Rightarrow> Some v)\<rparr>)
       \<and> buses (fst (upsert s r)) (vehicleId r) = snd (upsert s r)
       \<and> (fst (upsert s r) = s \<longleftrightarrow>
            reportedPosition r = location b \<and> (rep_speed r = None \<or> rep_speed r = speed b))"
proof -
  let ?b' = "b\<lparr>location := reportedPosition r,
               speed := (case rep_speed r of None \<Rightarrow> speed b | Some v \<Rightarrow> Some v)\<rparr>"
  have u: "upsert s r = (s\<lparr>buses := (buses s)(vehicleId r \<mapsto> ?b')\<rparr>, Some ?b')"
    using assms by (simp add: upsert_def reportedPosition_def updateBusLocation_Some)
  have "(s\<lparr>buses := (buses s)(vehicleId r \<mapsto> ?b')\<rparr> = s)
      \<longleftrightarrow> (buses s)(vehicleId r \<mapsto> ?b') = buses s"
    by (cases s) simp
  also have "\<dots> \<longleftrightarrow> ?b' = b"
    using assms by (auto simp: fun_upd_idem_iff)
  also have "\<dots> \<longleftrightarrow>
      reportedPosition r = location b \<and> (rep_speed r = None \<or> rep_speed r = speed b)"
    by (cases b) (auto split: option.splits)
  finally show ?thesis
    by (simp add: u)
qed

theorem upsert_accepts_witness:
  "buses newMemStorage (vehicleId reportOlder) = Some bus101
   \<and> snd (upsert newMemStorage reportOlder)
       = Some (bus101\<lparr>location := \<lparr> lat = 34.05, lng = - 118.24 \<rparr>, speed := Some 10\<rparr>)
   \<and> fst (upsert newMemStorage reportOlder) \<noteq> newMemStorage"
proof -
  have h: "buses newMemStorage (vehicleId reportOlder) = Some bus101"
    by (simp add: seeded_buses reportOlder_def)
  have "reportedPosition reportOlder \<noteq> location bus101"
    by (simp add: reportedPosition_def reportOlder_def bus101_def)
  with upsert_accepts [OF h] have "fst (upsert newMemStorage reportOlder) \<noteq> newMemStorage"
    and "snd (upsert newMemStorage reportOlder)
       = Some (bus101\<lparr>location := reportedPosition reportOlder,
                 speed := (case rep_speed reportOlder of None \<Rightarrow> speed bus101 | Some v \<Rightarrow> Some v)\<rparr>)"
    by simp_all
  then show ?thesis
    using h by (simp add: reportedPosition_def reportOlder_def)
qed

lemma applyReports_buses:
  "buses s i = Some b \<Longrightarrow> \<forall>r \<in> set rs. vehicleId r = i \<Longrightarrow>
   buses (applyReports s rs) =
     (buses s)(i \<mapsto> (if rs = [] then b
        else b\<lparr>location := reportedPosition (last rs), speed := lastSpeed (speed b) rs\<rparr>))"
proof (induction rs arbitrary: s b)
  case Nil
  then show ?case by (simp add: fun_upd_idem)
next
  case (Cons r rs)
  let ?b1 = "b\<lparr>location := reportedPosition r,
            speed := (case rep_speed r of None \<Rightarrow> speed b | Some v \<Rightarrow> Some v)\<rparr>"
  have v: "vehicleId r = i" using Cons.prems by simp
  have u: "fst (upsert s r) = s\<lparr>buses := (buses s)(i \<mapsto> ?b1)\<rparr>"
    using Cons.prems v by (simp add: upsert_Some)
  have rec: "(if rs = [] then ?b1
        else ?b1\<lparr>location := reportedPosition (last rs), speed := lastSpeed (speed ?b1) rs\<rparr>)
     = b\<lparr>location := reportedPosition (last (r # rs)), speed := lastSpeed (speed b) (r # rs)\<rparr>"
    by (cases "rep_speed r") simp_all
  have "buses (applyReports (fst (upsert s r)) rs) =
     (buses (fst (upsert s r)))(i \<mapsto> (if rs = [] then ?b1
        else ?b1\<lparr>location := reportedPosition (last rs), speed := lastSpeed (speed ?b1) rs\<rparr>))"
    using Cons.prems by (intro Cons.IH) (simp_all add: u)
  also have "\<dots> = (buses s)(i \<mapsto>
      b\<lparr>location := reportedPosition (last (r # rs)), speed := lastSpeed (speed b) (r # rs)\<rparr>)"
    unfolding rec by (simp add: u)
  finally show ?case
    by simp
qed

text \<open>
  C2, as stated, fails. The two reports of bus 1 delivered newer first leave the older
  report's position and speed in the store; delivered sorted by sequence number they
  leave the newer report's.
\<close>

theorem applyReports_counterexample:
  "buses (applyReports newMemStorage [reportNewer, reportOlder]) 1
     = Some (bus101\<lparr>location := \<lparr> lat = 34.05, lng = - 118.24 \<rparr>, speed := Some 10\<rparr>)
   \<and> sort_key sequenceNumber [reportNewer, reportOlder] = [reportOlder, reportNewer]
   \<and> buses (applyReports newMemStorage (sort_key sequenceNumber [reportNewer, reportOlder])) 1
     = Some (bus101\<lparr>location := \<lparr> lat = 34.06, lng = - 118.25 \<rparr>, speed := Some 25\<rparr>)
   \<and> applyReports newMemStorage [reportNewer, reportOlder]
     \<noteq> applyReports newMemStorage (sort_key sequenceNumber [reportNewer, reportOlder])"
proof -
  have h: "buses newMemStorage 1 = Some bus101"
    by (simp add: seeded_buses)
  have srt: "sort_key sequenceNumber [reportNewer, reportOlder] = [reportOlder, reportNewer]"
    by (simp add: reportNewer_def reportOlder_def)
  have a: "buses (applyReports newMemStorage [reportNewer, reportOlder]) 1
     = Some (bus101\<lparr>location := \<lparr> lat = 34.05, lng = - 118.24 \<rparr>, speed := Some 10\<rparr>)"
    using h by (subst applyReports_buses [where i = 1 and b = bus101])
      (simp_all add: reportNewer_def reportOlder_def reportedPosition_def)
  have b: "buses (applyReports newMemStorage [reportOlder, reportNewer]) 1
     = Some (bus101\<lparr>location := \<lparr> lat = 34.06, lng = - 118.25 \<rparr>, speed := Some 25\<rparr>)"
    using h by (subst applyReports_buses [where i = 1 and b = bus101])
      (simp_all add: reportNewer_def reportOlder_def reportedPosition_def)
  have "buses (applyReports newMemStorage [reportNewer, reportOlder]) 1
     \<noteq> buses (applyReports newMemStorage [reportOlder, reportNewer]) 1"
    unfolding a b by (simp add: bus101_def)
  then have "applyReports newMemStorage [reportNewer, reportOlder]
     \<noteq> applyReports newMemStorage [reportOlder, reportNewer]"
    by metis
  then show ?thesis
    using a b by (simp only: srt) simp
qed

text \<open>
  C2, amended. For a non-empty sequence of reports addressed to one vehicle that has a
  stored record, the final state is fixed by the order of delivery, not by the ordering
  keys: the vehicle's location is the position of the report delivered last, its speed
  is the speed of the last delivered report that carries one (the stored speed when none
  does), its other fields are as stored, and every other vehicle is as before.
\<close>

theorem applyReports_arrival_order:
  assumes "buses s i = Some b" and "rs \<noteq> []" and "\<forall>r \<in> set rs. vehicleId r = i"
  shows "buses (applyReports s rs) i =
           Some (b\<lparr>location := reportedPosition (last rs), speed := lastSpeed (speed b) rs\<rparr>)
       \<and> (\<forall>j. j \<noteq> i \<longrightarrow> buses (applyReports s rs) j = buses s j)"
  using assms by (simp add: applyReports_buses)

theorem applyReports_arrival_order_witness:
  "buses newMemStorage 1 = Some bus101
   \<and> [reportNewer, reportOlder] \<noteq> []
   \<and> vehicleId reportNewer = 1 \<and> vehicleId reportOlder = 1
   \<and> buses (applyReports newMemStorage [reportNewer, reportOlder]) 1
       = Some (bus101\<lparr>location := \<lparr> lat = 34.05, lng = - 118.24 \<rparr>, speed := Some 10\<rparr>)
   \<and> buses (applyReports newMemStorage [reportNewer, reportOlder]) 2 = Some bus202"
proof -
  have h: "buses newMemStorage 1 = Some bus101"
    by (simp add: seeded_buses)
  have ne: "[reportNewer, reportOlder] \<noteq> []"
    by simp
  have v: "\<forall>r \<in> set [reportNewer, reportOlder]. vehicleId r = 1"
    by (simp add: reportNewer_def reportOlder_def)
  from applyReports_arrival_order [OF h ne v]
  have "buses (applyReports newMemStorage [reportNewer, reportOlder]) 1
       = Some (bus101\<lparr>location := reportedPosition (last [reportNewer, reportOlder]),
                 speed := lastSpeed (speed bus101) [reportNewer, reportOlder]\<rparr>)"
    and "buses (applyReports newMemStorage [reportNewer, reportOlder]) 2 = buses newMemStorage 2"
    by simp_all
  then show ?thesis
    using h by (simp add: reportedPosition_def reportNewer_def reportOlder_def seeded_buses)
qed

section \<open>The ingest handler\<close>








section \<open>Status and reports\<close>

lemma putBusLocation_buses:
  "buses (fst (putBusLocation s req)) = buses s
   \<or> (\<exists>i b loc spd. buses s i = Some b
        \<and> buses (fst (putBusLocation s req)) = (buses s)(i \<mapsto>
             b\<lparr>location := loc, speed := (case spd of None \<Rightarrow> speed b | Some v \<Rightarrow> Some v)\<rparr>))"
proof (cases "isAdmin req")
  case False
  then show ?thesis by (simp add: putBusLocation_def)
next
  case True
  show ?thesis
  proof (cases "locationSchema_safeParse (body req)")
    case None
    with True show ?thesis by (simp add: putBusLocation_def)
  next
    case (Some t)
    obtain x y spd where t: "t = (x, y, spd)" by (cases t) auto
    show ?thesis
    proof (cases "params_id req")
      case None
      with True Some t show ?thesis by (simp add: putBusLocation_def)
    next
      case (Some i)
      note i = Some
      show ?thesis
      proof (cases "buses s i")
        case None
        with True \<open>locationSchema_safeParse (body req) = Some t\<close> t i show ?thesis
          by (simp add: putBusLocation_def updateBusLocation_None)
      next
        case (Some b)
        with True \<open>locationSchema_safeParse (body req) = Some t\<close> t i
        have "buses (fst (putBusLocation s req)) = (buses s)(i \<mapsto>
             b\<lparr>location := \<lparr> lat = x, lng = y \<rparr>, speed := (case spd of None \<Rightarrow> speed b | Some v \<Rightarrow> Some v)\<rparr>)"
          by (simp add: putBusLocation_def updateBusLocation_Some)
        with Some show ?thesis by blast
      qed
    qed
  qed
qed

lemma step_keeps_status:
  assumes "\<not> carriesStatus x" and "buses s j = Some b"
  shows "\<exists>b'. buses (step x s) j = Some b' \<and> status b' = status b"
  using assms
  by (cases x)
     (auto simp: create_defs updateUser_def verifyEmail_def setVerificationToken_def
        updateBusLocation_def updateRoute_def updateDriver_def updatePayment_def
        markPaymentAsPaid_def Let_def split: option.splits)

lemma stalled_buses:
  "buses stalledStorage = [1 \<mapsto> bus101, 2 \<mapsto> bus202, 3 \<mapsto> bus303\<lparr>status := OutOfService\<rparr>]"
  by (simp add: stalledStorage_def updateBus_def seeded_buses spreadBus_def spread_def
      markOutOfService_def bus303_def Let_def)

lemma parse_reportFor3:
  "locationSchema_safeParse (body reportFor3) = Some (34.052, - 118.241, Some 22)"
  by (simp add: locationSchema_safeParse_def reportFor3_def getProp_def)

text \<open>
  C8, as stated, fails. Bus 3 is out of service; an administrator's well-formed report
  for it is accepted and stored, and the bus is out of service afterwards as before.
\<close>

theorem stale_report_counterexample:
  "buses stalledStorage 3 = Some (bus303\<lparr>status := OutOfService\<rparr>)
   \<and> snd (putBusLocation stalledStorage reportFor3)
       = BusJson (bus303\<lparr>status := OutOfService, location := \<lparr> lat = 34.052, lng = - 118.241 \<rparr>,
                    speed := Some 22\<rparr>)
   \<and> buses (fst (putBusLocation stalledStorage reportFor3)) 3
       = Some (bus303\<lparr>status := OutOfService, location := \<lparr> lat = 34.052, lng = - 118.241 \<rparr>,
                    speed := Some 22\<rparr>)"
proof -
  have h: "buses stalledStorage 3 = Some (bus303\<lparr>status := OutOfService\<rparr>)"
    by (simp add: stalled_buses)
  have adm: "isAdmin reportFor3" "params_id reportFor3 = Some 3"
    by (simp_all add: isAdmin_def reportFor3_def adminUser_def)
  show ?thesis
    using h adm by (simp add: putBusLocation_def parse_reportFor3 updateBusLocation_Some)
qed

text \<open>
  C8, amended. The source has no staleness sweep and no report time. A position report
  changes the status of no vehicle: after the handler has run, every stored bus has the
  status and the \<open>isActive\<close> flag it had before, the reported one included. Of the
  calls of the store only \<open>createBus\<close> and \<open>updateBus\<close>, which take the status from
  their caller, can leave a stored bus with another status.
\<close>

theorem report_keeps_status:
  assumes "buses s j = Some b"
  shows "(\<exists>b'. buses (fst (putBusLocation s req)) j = Some b'
            \<and> status b' = status b \<and> isActive b' = isActive b)
       \<and> (\<not> carriesStatus x \<longrightarrow>
            (\<exists>b'. buses (step x s) j = Some b' \<and> status b' = status b))"
proof (intro conjI impI)
  show "\<exists>b'. buses (fst (putBusLocation s req)) j = Some b'
            \<and> status b' = status b \<and> isActive b' = isActive b"
    using putBusLocation_buses [of s req] assms by (auto simp: fun_upd_def)
next
  assume "\<not> carriesStatus x"
  then show "\<exists>b'. buses (step x s) j = Some b' \<and> status b' = status b"
    using assms by (rule step_keeps_status)
qed

theorem report_keeps_status_witness:
  "buses stalledStorage 3 = Some (bus303\<lparr>status := OutOfService\<rparr>)
   \<and> \<not> carriesStatus (UpdateBusLocation 3 \<lparr> lat = 34.052, lng = - 118.241 \<rparr> None)
   \<and> map_option status (buses (fst (putBusLocation stalledStorage reportFor3)) 3)
       = Some OutOfService
   \<and> map_option status
        (buses (step (UpdateBusLocation 3 \<lparr> lat = 34.052, lng = - 118.241 \<rparr> None) stalledStorage) 3)
       = Some OutOfService"
proof -
  have h: "buses stalledStorage 3 = Some (bus303\<lparr>status := OutOfService\<rparr>)"
    by (simp add: stalled_buses)
  have n: "\<not> carriesStatus (UpdateBusLocation 3 \<lparr> lat = 34.052, lng = - 118.241 \<rparr> None)"
    by simp
  from report_keeps_status [OF h, of reportFor3
      "UpdateBusLocation 3 \<lparr> lat = 34.052, lng = - 118.241 \<rparr> None"] n
  obtain b1 b2 where "buses (fst (putBusLocation stalledStorage reportFor3)) 3 = Some b1"
    and "status b1 = OutOfService"
    and "buses (step (UpdateBusLocation 3 \<lparr> lat = 34.052, lng = - 118.241 \<rparr> None) stalledStorage) 3
          = Some b2"
    and "status b2 = OutOfService"
    by auto
  then show ?thesis
    using h n by simp
qed

section \<open>Arrival estimates\<close>

lemma speedKmh_nonzero: "speedKmh bus \<noteq> 0"
  by (simp add: speedKmh_def split: option.splits)

lemma calculateETA_eq:
  "calculateETA bus d = Finite (of_int \<lfloor>3 * d / (50 * speedKmh bus) + 1 / 2\<rfloor>)"
proof -
  have nz: "speedKmh bus * 1000 / 3600 \<noteq> 0"
    using speedKmh_nonzero [of bus] by simp
  have "d / (speedKmh bus * 1000 / 3600) / 60 = 3 * d / (50 * speedKmh bus)"
    using speedKmh_nonzero [of bus] by (simp add: field_simps)
  then show ?thesis
    using nz by (simp add: calculateETA_def js_divide_def Let_def)
qed

text \<open>
  C5. For a bus whose speed is 0 or missing and a stop distance that is not negative,
  \<open>calculateETA\<close> divides by the fallback speed of 20 km/h and not by zero: the result
  is the one for a bus at 20 km/h, the finite number of whole minutes that \<open>d\<close> metres
  take at that speed.
\<close>

theorem calculateETA_fallback:
  assumes "speed bus = None \<or> speed bus = Some 0" and "0 \<le> d"
  shows "speedKmh bus = 20
       \<and> calculateETA bus d = calculateETA (bus\<lparr>speed := Some 20\<rparr>) d
       \<and> calculateETA bus d = Finite (of_int \<lfloor>3 * d / 1000 + 1 / 2\<rfloor>)
       \<and> isFinite (calculateETA bus d)"
proof -
  have k: "speedKmh bus = 20"
    using assms(1) by (auto simp: speedKmh_def)
  have k': "speedKmh (bus\<lparr>speed := Some 20\<rparr>) = 20"
    by (simp add: speedKmh_def)
  show ?thesis
    by (simp add: calculateETA_eq k k')
qed

theorem calculateETA_fallback_witness:
  "speed (bus303\<lparr>speed := Some 0\<rparr>) = Some 0 \<and> (0 :: real) \<le> 900
   \<and> calculateETA (bus303\<lparr>speed := Some 0\<rparr>) 900 = Finite 3
   \<and> isFinite (calculateETA (bus303\<lparr>speed := Some 0\<rparr>) 900)"
proof -
  have h: "speed (bus303\<lparr>speed := Some 0\<rparr>) = None \<or> speed (bus303\<lparr>speed := Some 0\<rparr>) = Some 0"
    by simp
  have d: "(0 :: real) \<le> 900"
    by simp
  note t = calculateETA_fallback [OF h d]
  from t have "calculateETA (bus303\<lparr>speed := Some 0\<rparr>) 900
       = Finite (of_int \<lfloor>3 * 900 / 1000 + 1 / (2 :: real)\<rfloor>)"
    by (rule conjunct1 [OF conjunct2 [OF conjunct2]])
  moreover from t have "isFinite (calculateETA (bus303\<lparr>speed := Some 0\<rparr>) 900)"
    by (rule conjunct2 [OF conjunct2 [OF conjunct2]])
  ultimately show ?thesis
    by simp
qed










section \<open>Ids assigned by the create methods\<close>

lemmas update_defs =
  updateUser_def verifyEmail_def setVerificationToken_def updateBus_def updateBusLocation_def
  updateRoute_def updateDriver_def updatePayment_def markPaymentAsPaid_def

lemma newMemStorage_run: "newMemStorage = run seedOps emptyStorage"
  by (simp add: newMemStorage_def seedData_def seedOps_def emptyStorage_def create_defs Let_def)

lemma run_append: "run (xs @ ys) s = run ys (run xs s)"
  by (induction xs arbitrary: s) simp_all

lemma counter_step: "counter e s \<le> counter e (step x s)"
  by (cases x; cases e) (simp_all add: create_defs update_defs Let_def split: option.splits)

lemma counter_run: "counter e s \<le> counter e (run xs s)"
proof (induction xs arbitrary: s)
  case Nil
  show ?case by simp
next
  case (Cons x xs)
  have "counter e s \<le> counter e (step x s)" by (rule counter_step)
  also have "\<dots> \<le> counter e (run xs (step x s))" by (rule Cons.IH)
  finally show ?case by simp
qed

lemma assignedBy_bounds:
  "(e, i) \<in> set (assignedBy x s) \<Longrightarrow> i = counter e s \<and> i < counter e (step x s)"
  by (cases x) (auto simp: create_defs Let_def)

lemma assigned_bounds:
  "(e, i) \<in> set (assigned xs s) \<Longrightarrow> counter e s \<le> i \<and> i < counter e (run xs s)"
proof (induction xs arbitrary: s)
  case Nil
  then show ?case by simp
next
  case (Cons x xs)
  from Cons.prems have "(e, i) \<in> set (assignedBy x s) \<or> (e, i) \<in> set (assigned xs (step x s))"
    by simp
  then show ?case
  proof
    assume "(e, i) \<in> set (assignedBy x s)"
    then have "i = counter e s" "i < counter e (step x s)"
      using assignedBy_bounds by blast+
    moreover have "counter e (step x s) \<le> counter e (run xs (step x s))"
      by (rule counter_run)
    ultimately show ?thesis by simp
  next
    assume "(e, i) \<in> set (assigned xs (step x s))"
    then have "counter e (step x s) \<le> i" "i < counter e (run xs (step x s))"
      using Cons.IH by blast+
    moreover have "counter e s \<le> counter e (step x s)"
      by (rule counter_step)
    ultimately show ?thesis by simp
  qed
qed

lemma keysBelowCounters_step: "keysBelowCounters s \<Longrightarrow> keysBelowCounters (step x s)"
  by (cases x)
     (simp_all add: keysBelowCounters_def create_defs update_defs Let_def split: option.splits, auto)

lemma keysBelowCounters_run: "keysBelowCounters s \<Longrightarrow> keysBelowCounters (run xs s)"
  by (induction xs arbitrary: s) (simp_all add: keysBelowCounters_step)

lemma keysBelowCounters_empty: "keysBelowCounters emptyStorage"
  by (simp add: keysBelowCounters_def emptyStorage_def)

lemma reached_run: "reached ops = run (seedOps @ ops) emptyStorage"
  by (simp add: reached_def run_append newMemStorage_run)

lemma keysBelowCounters_reached: "keysBelowCounters (reached ops)"
  unfolding reached_run by (rule keysBelowCounters_run) (rule keysBelowCounters_empty)

lemma history_below: "j \<in> set (idsOf e (history ops)) \<Longrightarrow> j < counter e (reached ops)"
proof -
  assume "j \<in> set (idsOf e (history ops))"
  then have "(e, j) \<in> set (assigned (seedOps @ ops) emptyStorage)"
    by (auto simp: idsOf_def history_def)
  then show ?thesis
    unfolding reached_run using assigned_bounds by blast
qed


lemma createUser_fresh:
  "freshCreate (idsOf EUser (history ops)) (users (reached ops))
     (users (fst (createUser (reached ops) u tok now)))
     (user_id (snd (createUser (reached ops) u tok now)))
     (snd (createUser (reached ops) u tok now))
   \<and> othersKept EUser (reached ops) (fst (createUser (reached ops) u tok now))"
  using keysBelowCounters_reached [of ops] history_below [of _ EUser ops]
  by (simp add: freshCreate_def othersKept_def createUser_def keysBelowCounters_def Let_def)

lemma createBus_fresh:
  "freshCreate (idsOf EBus (history ops)) (buses (reached ops))
     (buses (fst (createBus (reached ops) b)))
     (bus_id (snd (createBus (reached ops) b)))
     (snd (createBus (reached ops) b))
   \<and> othersKept EBus (reached ops) (fst (createBus (reached ops) b))"
  using keysBelowCounters_reached [of ops] history_below [of _ EBus ops]
  by (simp add: freshCreate_def othersKept_def createBus_def keysBelowCounters_def Let_def)

lemma createBusStop_fresh:
  "freshCreate (idsOf EBusStop (history ops)) (busStops (reached ops))
     (busStops (fst (createBusStop (reached ops) x)))
     (stop_id (snd (createBusStop (reached ops) x)))
     (snd (createBusStop (reached ops) x))
   \<and> othersKept EBusStop (reached ops) (fst (createBusStop (reached ops) x))"
  using keysBelowCounters_reached [of ops] history_below [of _ EBusStop ops]
  by (simp add: freshCreate_def othersKept_def createBusStop_def keysBelowCounters_def Let_def)

lemma createRoute_fresh:
  "freshCreate (idsOf ERoute (history ops)) (routes (reached ops))
     (routes (fst (createRoute (reached ops) r)))
     (route_id (snd (createRoute (reached ops) r)))
     (snd (createRoute (reached ops) r))
   \<and> othersKept ERoute (reached ops) (fst (createRoute (reached ops) r))"
  using keysBelowCounters_reached [of ops] history_below [of _ ERoute ops]
  by (simp add: freshCreate_def othersKept_def createRoute_def keysBelowCounters_def Let_def)

lemma createDriver_fresh:
  "freshCreate (idsOf EDriver (history ops)) (drivers (reached ops))
     (drivers (fst (createDriver (reached ops) d)))
     (driver_id (snd (createDriver (reached ops) d)))
     (snd (createDriver (reached ops) d))
   \<and> othersKept EDriver (reached ops) (fst (createDriver (reached ops) d))"
  using keysBelowCounters_reached [of ops] history_below [of _ EDriver ops]
  by (simp add: freshCreate_def othersKept_def createDriver_def keysBelowCounters_def Let_def)

lemma createPayment_fresh:
  "freshCreate (idsOf EPayment (history ops)) (payments (reached ops))
     (payments (fst (createPayment (reached ops) y now)))
     (payment_id (snd (createPayment (reached ops) y now)))
     (snd (createPayment (reached ops) y now))
   \<and> othersKept EPayment (reached ops) (fst (createPayment (reached ops) y now))"
  using keysBelowCounters_reached [of ops] history_below [of _ EPayment ops]
  by (simp add: freshCreate_def othersKept_def createPayment_def keysBelowCounters_def Let_def)

text \<open>
  C10. In every store reached from \<open>new MemStorage()\<close> by calls of its methods, each of
  \<open>createUser\<close>, \<open>createBus\<close>, \<open>createBusStop\<close>, \<open>createRoute\<close>, \<open>createDriver\<close> and
  \<open>createPayment\<close> gives its new record an id above every id that method has assigned
  before (in the seed data or in the run), stores the record under that id, where the
  map had none, and leaves every other record of that map and all the other maps as they
  were.
\<close>

theorem create_assigns_fresh_id:
  "(freshCreate (idsOf EUser (history ops)) (users (reached ops))
      (users (fst (createUser (reached ops) u tok now)))
      (user_id (snd (createUser (reached ops) u tok now)))
      (snd (createUser (reached ops) u tok now))
    \<and> othersKept EUser (reached ops) (fst (createUser (reached ops) u tok now)))
   \<and> (freshCreate (idsOf EBus (history ops)) (buses (reached ops))
      (buses (fst (createBus (reached ops) b)))
      (bus_id (snd (createBus (reached ops) b)))
      (snd (createBus (reached ops) b))
    \<and> othersKept EBus (reached ops) (fst (createBus (reached ops) b)))
   \<and> (freshCreate (idsOf EBusStop (history ops)) (busStops (reached ops))
      (busStops (fst (createBusStop (reached ops) x)))
      (stop_id (snd (createBusStop (reached ops) x)))
      (snd (createBusStop (reached ops) x))
    \<and> othersKept EBusStop (reached ops) (fst (createBusStop (reached ops) x)))
   \<and> (freshCreate (idsOf ERoute (history ops)) (routes (reached ops))
      (routes (fst (createRoute (reached ops) r)))
      (route_id (snd (createRoute (reached ops) r)))
      (snd (createRoute (reached ops) r))
    \<and> othersKept ERoute (reached ops) (fst (createRoute (reached ops) r)))
   \<and> (freshCreate (idsOf EDriver (history ops)) (drivers (reached ops))
      (drivers (fst (createDriver (reached ops) d)))
      (driver_id (snd (createDriver (reached ops) d)))
      (snd (createDriver (reached ops) d))
    \<and> othersKept EDriver (reached ops) (fst (createDriver (reached ops) d)))
   \<and> (freshCreate (idsOf EPayment (history ops)) (payments (reached ops))
      (payments (fst (createPayment (reached ops) y now')))
      (payment_id (snd (createPayment (reached ops) y now')))
      (snd (createPayment (reached ops) y now'))
    \<and> othersKept EPayment (reached ops) (fst (createPayment (reached ops) y now')))"
  by (intro conjI createUser_fresh [THEN conjunct1] createUser_fresh [THEN conjunct2]
      createBus_fresh [THEN conjunct1] createBus_fresh [THEN conjunct2]
      createBusStop_fresh [THEN conjunct1] createBusStop_fresh [THEN conjunct2]
      createRoute_fresh [THEN conjunct1] createRoute_fresh [THEN conjunct2]
      createDriver_fresh [THEN conjunct1] createDriver_fresh [THEN conjunct2]
      createPayment_fresh [THEN conjunct1] createPayment_fresh [THEN conjunct2])

lemma idsOf_append: "idsOf e (xs @ ys) = idsOf e xs @ idsOf e ys"
  by (simp add: idsOf_def)

lemma counter_step_eq:
  "counter e (step x s) = counter e s + int (length (idsOf e (assignedBy x s)))"
  by (cases x; cases e)
     (simp_all add: idsOf_def create_defs update_defs Let_def split: option.splits)

lemma counter_run_eq:
  "counter e (run xs s) = counter e s + int (length (idsOf e (assigned xs s)))"
  by (induction xs arbitrary: s) (simp_all add: idsOf_def counter_step_eq)

lemma counter_reached: "counter e (reached ops) = 1 + int (length (idsOf e (history ops)))"
proof -
  have "counter e emptyStorage = 1"
    by (cases e) (simp_all add: emptyStorage_def)
  then show ?thesis
    by (simp add: reached_run history_def counter_run_eq)
qed

lemma history_sample:
  "history sampleOps =
     [(ERoute, 1), (ERoute, 2), (EBusStop, 1), (EBusStop, 2), (EBusStop, 3), (EBusStop, 4),
      (EBusStop, 5), (EBusStop, 6), (EBusStop, 7), (EDriver, 1), (EDriver, 2), (EDriver, 3),
      (EBus, 1), (EBus, 2), (EBus, 3), (EUser, 1), (EBus, 4), (EPayment, 1)]"
  by (simp add: history_def seedOps_def sampleOps_def emptyStorage_def create_defs updateBus_def
      Let_def)

lemma ids_sample:
  "idsOf EUser (history sampleOps) = [1]"
  "idsOf EBus (history sampleOps) = [1, 2, 3, 4]"
  "idsOf EBusStop (history sampleOps) = [1, 2, 3, 4, 5, 6, 7]"
  "idsOf ERoute (history sampleOps) = [1, 2]"
  "idsOf EDriver (history sampleOps) = [1, 2, 3]"
  "idsOf EPayment (history sampleOps) = [1]"
  by (simp_all add: history_sample idsOf_def)

lemma counters_sample:
  "userId (reached sampleOps) = 2" "busId (reached sampleOps) = 5"
  "busStopId (reached sampleOps) = 8" "routeId (reached sampleOps) = 3"
  "driverId (reached sampleOps) = 4" "paymentId (reached sampleOps) = 2"
  using counter_reached [of EUser sampleOps] counter_reached [of EBus sampleOps]
    counter_reached [of EBusStop sampleOps] counter_reached [of ERoute sampleOps]
    counter_reached [of EDriver sampleOps] counter_reached [of EPayment sampleOps]
  by (simp_all add: ids_sample)

lemma created_ids:
  "user_id (snd (createUser s u tok now)) = userId s"
  "bus_id (snd (createBus s b)) = busId s"
  "stop_id (snd (createBusStop s x)) = busStopId s"
  "route_id (snd (createRoute s r)) = routeId s"
  "driver_id (snd (createDriver s d)) = driverId s"
  "payment_id (snd (createPayment s y now)) = paymentId s"
  by (simp_all add: create_defs Let_def)

theorem create_assigns_fresh_id_witness:
  "idsOf EUser (history sampleOps) = [1]
   \<and> user_id (snd (createUser (reached sampleOps) sampleUser ''c3d4'' 3000)) = 2
   \<and> users (reached sampleOps) 2 = None
   \<and> idsOf EBus (history sampleOps) = [1, 2, 3, 4]
   \<and> bus_id (snd (createBus (reached sampleOps) sampleBus)) = 5
   \<and> buses (reached sampleOps) 5 = None
   \<and> buses (fst (createBus (reached sampleOps) sampleBus)) 5
       = Some (snd (createBus (reached sampleOps) sampleBus))
   \<and> buses (fst (createBus (reached sampleOps) sampleBus)) 1 = buses (reached sampleOps) 1
   \<and> routes (fst (createBus (reached sampleOps) sampleBus)) = routes (reached sampleOps)
   \<and> idsOf EBusStop (history sampleOps) = [1, 2, 3, 4, 5, 6, 7]
   \<and> stop_id (snd (createBusStop (reached sampleOps) sampleStop)) = 8
   \<and> idsOf ERoute (history sampleOps) = [1, 2]
   \<and> route_id (snd (createRoute (reached sampleOps) sampleRoute)) = 3
   \<and> idsOf EDriver (history sampleOps) = [1, 2, 3]
   \<and> driver_id (snd (createDriver (reached sampleOps) sampleDriver)) = 4
   \<and> idsOf EPayment (history sampleOps) = [1]
   \<and> payment_id (snd (createPayment (reached sampleOps) samplePayment 4000)) = 2"
proof -
  note t = create_assigns_fresh_id [of sampleOps sampleUser "''c3d4''" 3000 sampleBus
      sampleStop sampleRoute sampleDriver samplePayment 4000]
  from t have u: "freshCreate (idsOf EUser (history sampleOps)) (users (reached sampleOps))
      (users (fst (createUser (reached sampleOps) sampleUser ''c3d4'' 3000)))
      (user_id (snd (createUser (reached sampleOps) sampleUser ''c3d4'' 3000)))
      (snd (createUser (reached sampleOps) sampleUser ''c3d4'' 3000))"
    by (rule conjunct1 [OF conjunct1])
  from t have b: "freshCreate (idsOf EBus (history sampleOps)) (buses (reached sampleOps))
      (buses (fst (createBus (reached sampleOps) sampleBus)))
      (bus_id (snd (createBus (reached sampleOps) sampleBus)))
      (snd (createBus (reached sampleOps) sampleBus))"
    by (rule conjunct1 [OF conjunct1 [OF conjunct2]])
  from t have k: "othersKept EBus (reached sampleOps) (fst (createBus (reached sampleOps) sampleBus))"
    by (rule conjunct2 [OF conjunct1 [OF conjunct2]])
  have "users (reached sampleOps) 2 = None"
    using u by (simp add: freshCreate_def created_ids counters_sample)
  moreover have "buses (reached sampleOps) 5 = None"
    and "buses (fst (createBus (reached sampleOps) sampleBus)) 5
       = Some (snd (createBus (reached sampleOps) sampleBus))"
    and "buses (fst (createBus (reached sampleOps) sampleBus)) 1 = buses (reached sampleOps) 1"
    using b by (simp_all add: freshCreate_def created_ids counters_sample)
  moreover have "routes (fst (createBus (reached sampleOps) sampleBus)) = routes (reached sampleOps)"
    using k by (simp add: othersKept_def)
  ultimately show ?thesis
    by (simp add: ids_sample created_ids counters_sample)
qed

end
